theory Spec2Isabelle
  imports Main
begin

section \<open>Data model of \<^verbatim>\<open>app.py\<close>\<close>

text \<open>
  The script is a Streamlit front end: every user action re-runs \<^verbatim>\<open>main()\<close> against
  state that survives between runs. That state is made explicit here: the Streamlit
  session state, the module-level dictionary \<^verbatim>\<open>store\<close>, the state of
  \<^verbatim>\<open>matplotlib.pyplot\<close>, the DataFrame objects, and the sequence of calls made to
  Streamlit and to the agent library. Objects that the code shares by reference (Matplotlib
  figures, DataFrames) live in address-indexed heaps, so that two references to one object
  are two occurrences of one address.
\<close>

subsection \<open>Exceptions\<close>

text \<open>
  The handlers of the script (in \<^verbatim>\<open>load_csv\<close>, in
  \<^verbatim>\<open>handle_chat_interaction\<close> and in \<^verbatim>\<open>main\<close>) are
  \<^verbatim>\<open>except Exception as e\<close> and use only the text of \<open>e\<close>. An exception value
  here is an instance of a subclass of \<^verbatim>\<open>Exception\<close>, given by its class name
  and its text; \<^verbatim>\<open>KeyboardInterrupt\<close> and \<^verbatim>\<open>SystemExit\<close>, which those
  handlers let through on purpose, are not failures of a call and are not modelled.
\<close>

datatype exn = Exn (exn_class: string) (exn_text: string)

definition quoted :: "string \<Rightarrow> string" where
  "quoted s = [CHR 0x27] @ s @ [CHR 0x27]"

definition attribute_error :: "string \<Rightarrow> exn" where
  \<comment> \<open>reading an attribute of \<^verbatim>\<open>st.session_state\<close> whose key is absent\<close>
  "attribute_error key = Exn ''AttributeError''
     (''st.session_state has no attribute '' @ quoted key)"

definition key_error :: "string \<Rightarrow> exn" where
  \<comment> \<open>\<^verbatim>\<open>d[key]\<close> on a dict without the key\<close>
  "key_error key = Exn ''KeyError'' (quoted key)"

subsection \<open>Messages, figures, session state\<close>

text \<open>
  A figure is referred to by the address of the \<^verbatim>\<open>Figure\<close> object.
  \<^verbatim>\<open>additional_kwargs\<close> is a dict; the only values this code puts into it are figures.
\<close>

type_synonym figure = nat

datatype message =
    HumanMessage (content: string) (additional_kwargs: "(string \<times> figure) list")
  | AIMessage (content: string) (additional_kwargs: "(string \<times> figure) list")

fun message_type :: "message \<Rightarrow> string" where
  "message_type (HumanMessage c kw) = ''human''"
| "message_type (AIMessage c kw) = ''ai''"

text \<open>
  \<^verbatim>\<open>st.session_state\<close> holds at most the keys \<^verbatim>\<open>messages\<close>,
  \<^verbatim>\<open>session_id\<close> and \<^verbatim>\<open>df_loaded\<close>; \<open>None\<close> is an absent key.
\<close>

record session_state =
  messages :: "message list option"
  session_id :: "string option"
  df_loaded :: "bool option"

subsection \<open>The pyplot state\<close>

text \<open>
  \<^verbatim>\<open>matplotlib.pyplot\<close> keeps the figures it manages, the current one first.
  \<^verbatim>\<open>plt.gcf()\<close> returns the current figure and creates one when there is none;
  \<^verbatim>\<open>plt.clf()\<close> is \<^verbatim>\<open>gcf().clear()\<close>: it empties the current figure object
  in place and does not replace it. A figure's content is the list of its axes.
\<close>

type_synonym axes = string

record pyplot =
  figures :: "figure \<Rightarrow> axes list"
  fignums :: "figure list"
  next_fig :: figure

definition gcf :: "pyplot \<Rightarrow> figure \<times> pyplot" where
  "gcf p = (case fignums p of
      [] \<Rightarrow> (next_fig p,
             p\<lparr>figures := (figures p)(next_fig p := []),
               fignums := [next_fig p],
               next_fig := Suc (next_fig p)\<rparr>)
    | f # fs \<Rightarrow> (f, p))"

definition clf :: "pyplot \<Rightarrow> pyplot" where
  "clf p = (case gcf p of (f, p') \<Rightarrow> p'\<lparr>figures := (figures p')(f := [])\<rparr>)"

definition get_axes :: "pyplot \<Rightarrow> figure \<Rightarrow> axes list" where
  "get_axes p f = figures p f"

subsection \<open>DataFrames, calls, the world\<close>

record dataframe =
  columns :: "string list"
  rows :: "string list list"

definition df_head :: "dataframe \<Rightarrow> dataframe" where
  \<comment> \<open>\<^verbatim>\<open>df.head()\<close>: a new DataFrame with the first five rows\<close>
  "df_head d = d\<lparr>rows := take 5 (rows d)\<rparr>"

datatype llm = ChatGoogleGenerativeAI
  (model: string) (google_api_key: string) (temperature: int)
  (convert_system_message_to_human: bool)

text \<open>
  Every call that shows something, asks the user or reaches an external service is
  recorded, in order. A call whose arguments are literals of the script is a constructor
  of its own (the comment gives its place); the others carry their arguments.
\<close>

datatype event =
    PageConfig | Title | Welcome
  | SidebarHeader | KeySuccess | KeyWarning | KeyTextInput
  | FileUploader | ResetButton | HowTo
  | NeedKeyWarning
  | AwaitingFileInfo
  | ChatMessage string
  | Markdown string
  | Pyplot figure
  | CsvLoadedSuccess
  | Dataframe dataframe
  | Error string
  | RestartSuccess
  | ChatInput
  | Spinner
  | NewLLM string
  | CreateAgent llm nat
  | AgentInvoke string string

text \<open>
  The calls that belong to the agent: constructing the model client or the agent, opening
  the chat input, invoking the agent.
\<close>

fun agent_activity :: "event \<Rightarrow> bool" where
  "agent_activity (NewLLM k) = True"
| "agent_activity (CreateAgent l d) = True"
| "agent_activity (AgentInvoke q sid) = True"
| "agent_activity ChatInput = True"
| "agent_activity e = False"

record world =
  session :: session_state
  store :: "string \<rightharpoonup> message list"
  plt :: pyplot
  frames :: "nat \<Rightarrow> dataframe"
  next_frame :: nat
  trace :: "event list"

definition emit :: "event list \<Rightarrow> world \<Rightarrow> world" where
  "emit es w = w\<lparr>trace := trace w @ es\<rparr>"

subsection \<open>What the script does not decide\<close>

text \<open>
  The external services are parameters. \<open>read_csv\<close> is \<^verbatim>\<open>pd.read_csv\<close> on the
  uploaded bytes. \<open>llm_error\<close> and \<open>agent_error\<close> say whether the constructors
  \<^verbatim>\<open>ChatGoogleGenerativeAI(...)\<close> and \<^verbatim>\<open>create_pandas_dataframe_agent(...)\<close>
  raise. \<open>run_agent\<close> is one call of the agent behind
  \<^verbatim>\<open>RunnableWithMessageHistory\<close>: it is given the question, the messages of the
  session's history object, the DataFrame it was built on and the pyplot state, and it
  answers with a response dict or raises; being handed the history object, the DataFrame
  and the process-wide pyplot module by reference, and running generated code
  (\<^verbatim>\<open>allow_dangerous_code=True\<close>), it may leave each of them changed.
\<close>

record agent_result =
  outcome :: "exn + (string \<times> string) list"
  history_after :: "message list"
  df_after :: dataframe
  plt_after :: pyplot

record env =
  read_csv :: "string \<Rightarrow> exn + dataframe"
  llm_error :: "string \<Rightarrow> exn option"
  agent_error :: "dataframe \<Rightarrow> exn option"
  run_agent :: "string \<Rightarrow> message list \<Rightarrow> dataframe \<Rightarrow> pyplot \<Rightarrow> agent_result"

text \<open>
  What one run of the script reads from the user and the clock. \<open>clock\<close> is the text
  that the f-string makes of \<^verbatim>\<open>pd.Timestamp.now().timestamp()\<close>; different
  readings give different texts.
\<close>

record inputs =
  secrets_key :: "string option"
  text_input :: string
  uploaded_file :: "string option"
  chat_input :: "string option"
  clock :: string

section \<open>The functions of the script\<close>

definition get_llm :: "env \<Rightarrow> string \<Rightarrow> world \<Rightarrow> (exn + llm) \<times> world" where
  "get_llm ev key w =
     (case llm_error ev key of
        Some e \<Rightarrow> (Inl e, emit [NewLLM key] w)
      | None \<Rightarrow> (Inr (ChatGoogleGenerativeAI ''gemini-2.5-flash'' key 0 True),
                 emit [NewLLM key] w))"

text \<open>
  \<^verbatim>\<open>
  def load_csv(uploaded_file):
      try:
          return pd.read_csv(uploaded_file)
      except Exception as e:
          st.error(f"Erro ao carregar o arquivo CSV: {e}")
          return None
  \<close>
  A successful call returns a new DataFrame object: a fresh address. The decorator
  \<^verbatim>\<open>@st.cache_data\<close> saves the work on a repeated upload and changes nothing seen
  here: Streamlit then shows the recorded \<^verbatim>\<open>st.error\<close> again and returns a copy of
  the stored result, again an object of its own.
\<close>

definition csv_error :: "exn \<Rightarrow> string" where
  "csv_error e = ''Erro ao carregar o arquivo CSV: '' @ exn_text e"

definition load_csv :: "env \<Rightarrow> string \<Rightarrow> world \<Rightarrow> nat option \<times> world" where
  "load_csv ev file w =
     (case read_csv ev file of
        Inr d \<Rightarrow> (Some (next_frame w),
                  w\<lparr>frames := (frames w)(next_frame w := d),
                    next_frame := Suc (next_frame w)\<rparr>)
      | Inl e \<Rightarrow> (None, emit [Error (csv_error e)] w))"

text \<open>
  \<^verbatim>\<open>
  def get_session_history(session_id: str):
      if session_id not in store:
          store[session_id] = InMemoryChatMessageHistory()
      return store[session_id]
  \<close>
\<close>

definition get_session_history ::
  "string \<Rightarrow> (string \<rightharpoonup> message list) \<Rightarrow> message list \<times> (string \<rightharpoonup> message list)" where
  "get_session_history sid st =
     (case st sid of
        None \<Rightarrow> ([], st(sid \<mapsto> []))
      | Some h \<Rightarrow> (h, st))"

definition new_session_id :: "string \<Rightarrow> string" where
  "new_session_id now = ''session_'' @ now"

definition initialize_session_state :: "string \<Rightarrow> session_state \<Rightarrow> session_state" where
  "initialize_session_state now s =
     (let s1 = (if messages s = None then s\<lparr>messages := Some []\<rparr> else s)
      in if session_id s1 = None then s1\<lparr>session_id := Some (new_session_id now)\<rparr> else s1)"

definition clear_chat_history :: "string \<Rightarrow> world \<Rightarrow> world" where
  "clear_chat_history now w =
     (let s1 = (session w)\<lparr>session_id := Some (new_session_id now)\<rparr>;
          s2 = s1\<lparr>messages := Some []\<rparr>;
          s3 = (if df_loaded s2 \<noteq> None then s2\<lparr>df_loaded := None\<rparr> else s2)
      in emit [RestartSuccess] (w\<lparr>session := s3\<rparr>))"

text \<open>
  \<^verbatim>\<open>initialize_agent\<close> builds the prompt template and the agent on the DataFrame
  \<open>df\<close> (a reference), and wraps it with the history factory.
\<close>

datatype prompt_part = System_persona | MessagesPlaceholder string | Human_template string

record pandas_agent =
  agent_llm :: llm
  agent_df :: nat
  prompt :: "prompt_part list"
  verbose :: bool
  allow_dangerous_code :: bool
  handle_parsing_errors :: bool

record agent_with_memory =
  runnable :: pandas_agent
  input_messages_key :: string
  history_messages_key :: string

definition initialize_agent ::
  "env \<Rightarrow> llm \<Rightarrow> nat \<Rightarrow> world \<Rightarrow> (exn + agent_with_memory) \<times> world" where
  "initialize_agent ev l df w =
     (let prompt_template =
            [System_persona, MessagesPlaceholder ''chat_history'',
             Human_template ''{input}'', MessagesPlaceholder ''agent_scratchpad''];
          w1 = emit [CreateAgent l df] w
      in case agent_error ev (frames w df) of
           Some e \<Rightarrow> (Inl e, w1)
         | None \<Rightarrow>
             (Inr \<lparr>runnable = \<lparr>agent_llm = l, agent_df = df, prompt = prompt_template,
                                verbose = False, allow_dangerous_code = True,
                                handle_parsing_errors = True\<rparr>,
                   input_messages_key = ''input'',
                   history_messages_key = ''chat_history''\<rparr>, w1))"

text \<open>
  The key comes from the secrets store; when it is not there
  (\<^verbatim>\<open>KeyError\<close>, \<^verbatim>\<open>FileNotFoundError\<close>) it is what the text field holds.
\<close>

definition render_sidebar :: "inputs \<Rightarrow> world \<Rightarrow> string \<times> string option \<times> world" where
  "render_sidebar inp w =
     (let w1 = emit [SidebarHeader] w;
          (key, w2) = (case secrets_key inp of
                         Some k \<Rightarrow> (k, emit [KeySuccess] w1)
                       | None \<Rightarrow> (text_input inp, emit [KeyWarning, KeyTextInput] w1));
          w3 = emit [FileUploader, ResetButton, HowTo] w2
      in (key, uploaded_file inp, w3))"

definition api_key_entered :: "inputs \<Rightarrow> string" where
  \<comment> \<open>the key that \<^verbatim>\<open>render_sidebar\<close> returns\<close>
  "api_key_entered inp = (case secrets_key inp of Some k \<Rightarrow> k | None \<Rightarrow> text_input inp)"

text \<open>
  \<^verbatim>\<open>agent_with_memory.invoke({"input": prompt}, config=config)\<close>: the wrapper asks
  \<^verbatim>\<open>get_session_history\<close> for the history object of the configured session and
  runs the agent with it.
\<close>

definition invoke ::
  "env \<Rightarrow> agent_with_memory \<Rightarrow> string \<Rightarrow> string \<Rightarrow> world
     \<Rightarrow> (exn + (string \<times> string) list) \<times> world" where
  "invoke ev ag q sid w =
     (case get_session_history sid (store w) of
        (hist, st1) \<Rightarrow>
          (let df = agent_df (runnable ag);
               r = run_agent ev q hist (frames w df) (plt w)
           in (outcome r,
               w\<lparr>store := st1(sid \<mapsto> history_after r),
                 plt := plt_after r,
                 frames := (frames w)(df := df_after r),
                 trace := trace w @ [AgentInvoke q sid]\<rparr>)))"

definition append_message :: "message \<Rightarrow> world \<Rightarrow> exn option \<times> world" where
  \<comment> \<open>\<^verbatim>\<open>st.session_state.messages.append(m)\<close>\<close>
  "append_message m w =
     (case messages (session w) of
        None \<Rightarrow> (Some (attribute_error ''messages''), w)
      | Some ms \<Rightarrow> (None, w\<lparr>session := (session w)\<lparr>messages := Some (ms @ [m])\<rparr>\<rparr>))"

text \<open>
  The body of the \<^verbatim>\<open>try\<close> of \<^verbatim>\<open>handle_chat_interaction\<close>, in two parts.
  First the call of the agent, up to its output:
  \<^verbatim>\<open>
  plt.clf()
  config = {"configurable": {"session_id": st.session_state.session_id}}
  response = agent_with_memory.invoke({"input": prompt}, config=config)
  output = response["output"]
  \<close>
  The result is the output, or the exception raised on the way to it, and the world as
  it was left.
\<close>

definition ask_agent ::
  "env \<Rightarrow> agent_with_memory \<Rightarrow> string \<Rightarrow> world \<Rightarrow> (exn + string) \<times> world" where
  "ask_agent ev ag q w =
     (let w1 = w\<lparr>plt := clf (plt w)\<rparr>
      in case session_id (session w1) of
           None \<Rightarrow> (Inl (attribute_error ''session_id''), w1)
         | Some sid \<Rightarrow>
             (case invoke ev ag q sid w1 of
                (Inl e, w2) \<Rightarrow> (Inl e, w2)
              | (Inr response, w2) \<Rightarrow>
                  (case map_of response ''output'' of
                     None \<Rightarrow> (Inl (key_error ''output''), w2)
                   | Some out \<Rightarrow> (Inr out, w2))))"

text \<open>
  Then the answer is shown and stored, with the current figure when it has axes:
  \<^verbatim>\<open>
  fig = plt.gcf()
  if fig.get_axes():
      st.pyplot(fig)
      ai_message = AIMessage(content=output, additional_kwargs={"plot": fig})
  else:
      st.markdown(output)
      ai_message = AIMessage(content=output)
  st.session_state.messages.append(ai_message)
  \<close>
  The result of the whole block is the exception that left it, if any.
\<close>

definition try_answer ::
  "env \<Rightarrow> agent_with_memory \<Rightarrow> string \<Rightarrow> world \<Rightarrow> exn option \<times> world" where
  "try_answer ev ag q w =
     (case ask_agent ev ag q w of
        (Inl e, w2) \<Rightarrow> (Some e, w2)
      | (Inr out, w2) \<Rightarrow>
          (case gcf (plt w2) of
             (fig, p) \<Rightarrow>
               (let w3 = w2\<lparr>plt := p\<rparr>
                in if get_axes p fig \<noteq> []
                   then append_message (AIMessage out [(''plot'', fig)])
                          (emit [Pyplot fig] w3)
                   else append_message (AIMessage out [])
                          (emit [Markdown out] w3))))"

definition analysis_error :: "exn \<Rightarrow> string" where
  \<comment> \<open>the f-string of the handler, its accented letter in UTF-8\<close>
  "analysis_error e =
     ''Ocorreu um erro durante a an'' @ [CHR 0xC3, CHR 0xA1] @ ''lise: '' @ exn_text e"

definition handle_chat_interaction ::
  "env \<Rightarrow> agent_with_memory \<Rightarrow> string option \<Rightarrow> world \<Rightarrow> exn option \<times> world" where
  "handle_chat_interaction ev ag chat w =
     (let w0 = emit [ChatInput] w
      in case chat of
           None \<Rightarrow> (None, w0)
         | Some q \<Rightarrow>
             if q = [] then (None, w0)
             else (case append_message (HumanMessage q []) w0 of
                     (Some e, w1) \<Rightarrow> (Some e, w1)
                   | (None, w1) \<Rightarrow>
                       (let w2 = emit [ChatMessage ''user'', Markdown q,
                                       ChatMessage ''assistant'', Spinner] w1
                        in case try_answer ev ag q w2 of
                             (None, w3) \<Rightarrow> (None, w3)
                           | (Some e, w3) \<Rightarrow>
                               append_message (AIMessage (analysis_error e) [])
                                 (emit [Error (analysis_error e)] w3))))"

text \<open>The loop of \<^verbatim>\<open>main\<close> that shows the transcript again on every run.\<close>

definition render_message :: "message \<Rightarrow> event list" where
  "render_message m =
     [ChatMessage (message_type m), Markdown (content m)] @
     (case map_of (additional_kwargs m) ''plot'' of
        None \<Rightarrow> []
      | Some f \<Rightarrow> [Pyplot f])"

fun render_messages :: "message list \<Rightarrow> world \<Rightarrow> world" where
  "render_messages [] w = w"
| "render_messages (m # ms) w = render_messages ms (emit (render_message m) w)"

definition critical_error :: "exn \<Rightarrow> string" where
  "critical_error e =
     ''Ocorreu um erro cr'' @ [CHR 0xC3, CHR 0xAD] @ ''tico ao inicializar o agente: ''
       @ exn_text e"

definition start_agent_and_chat ::
  "env \<Rightarrow> string \<Rightarrow> nat \<Rightarrow> string option \<Rightarrow> world \<Rightarrow> exn option \<times> world" where
  \<comment> \<open>the body of the \<^verbatim>\<open>try\<close> of \<^verbatim>\<open>main\<close>\<close>
  "start_agent_and_chat ev key df chat w =
     (case get_llm ev key w of
        (Inl e, w1) \<Rightarrow> (Some e, w1)
      | (Inr l, w1) \<Rightarrow>
          (case initialize_agent ev l df w1 of
             (Inl e, w2) \<Rightarrow> (Some e, w2)
           | (Inr ag, w2) \<Rightarrow> handle_chat_interaction ev ag chat w2))"

definition main :: "env \<Rightarrow> inputs \<Rightarrow> world \<Rightarrow> exn option \<times> world" where
  "main ev inp w =
     (case render_sidebar inp (emit [PageConfig, Title, Welcome] w) of
        (key, file, w1) \<Rightarrow>
          (let w2 = w1\<lparr>session := initialize_session_state (clock inp) (session w1)\<rparr>
           in if key = [] then (None, emit [NeedKeyWarning] w2)
              else case file of
                None \<Rightarrow> (None, emit [AwaitingFileInfo] w2)
              | Some f \<Rightarrow>
                  (case messages (session w2) of
                     None \<Rightarrow> (Some (attribute_error ''messages''), w2)
                   | Some ms \<Rightarrow>
                       (case load_csv ev f (render_messages ms w2) of
                          (None, w4) \<Rightarrow> (None, w4)
                        | (Some df, w4) \<Rightarrow>
                            (let w5 = (if \<not> (case df_loaded (session w4) of
                                                None \<Rightarrow> False | Some b \<Rightarrow> b)
                                       then (emit [CsvLoadedSuccess,
                                                   Dataframe (df_head (frames w4 df))] w4)
                                              \<lparr>session := (session w4)\<lparr>df_loaded := Some True\<rparr>\<rparr>
                                       else w4)
                             in case start_agent_and_chat ev key df (chat_input inp) w5 of
                                  (None, w6) \<Rightarrow> (None, w6)
                                | (Some e, w6) \<Rightarrow>
                                    (None, emit [Error (critical_error e)] w6))))))"

text \<open>
  The life of the process: runs of the script, and clicks on the reset button, whose
  callback Streamlit calls with the clock as it then stands. The services may answer
  differently from run to run.
\<close>

datatype action = Rerun env inputs | Reset string

fun step :: "world \<Rightarrow> action \<Rightarrow> world" where
  "step w (Rerun ev inp) = snd (main ev inp w)"
| "step w (Reset now) = clear_chat_history now w"

fun process :: "world \<Rightarrow> action list \<Rightarrow> world" where
  "process w [] = w"
| "process w (a # as) = process (step w a) as"

section \<open>Sample services and worlds\<close>

text \<open>
  Concrete values on which the theorems below are run. \<open>draw\<close> is what a pyplot
  plotting call such as \<^verbatim>\<open>plt.hist(...)\<close> does: it adds to the current figure.
\<close>

definition empty_pyplot :: pyplot where
  "empty_pyplot = \<lparr>figures = (\<lambda>f. []), fignums = [], next_fig = 0\<rparr>"

definition sample_df :: dataframe where
  "sample_df = \<lparr>columns = [''a'', ''b''], rows = [[''1'', ''2''], [''3'', ''4'']]\<rparr>"

definition initial_world :: world where
  \<comment> \<open>a process that has just started: no session state, \<^verbatim>\<open>store = {}\<close>\<close>
  "initial_world =
     \<lparr>session = \<lparr>messages = None, session_id = None, df_loaded = None\<rparr>,
      store = Map.empty, plt = empty_pyplot, frames = (\<lambda>a. \<lparr>columns = [], rows = []\<rparr>),
      next_frame = 0, trace = []\<rparr>"

definition chat_world :: world where
  \<comment> \<open>a session under way, its DataFrame at address 0\<close>
  "chat_world =
     \<lparr>session = \<lparr>messages = Some [], session_id = Some ''session_1730851200.5'',
                 df_loaded = Some True\<rparr>,
      store = Map.empty, plt = empty_pyplot, frames = (\<lambda>a. sample_df),
      next_frame = 1, trace = []\<rparr>"

definition resumed_world :: world where
  \<comment> \<open>the same, in a process whose store still holds the history of an earlier session\<close>
  "resumed_world =
     chat_world\<lparr>store := [''session_1730850000.25'' \<mapsto>
        [HumanMessage ''how many rows?'' [], AIMessage ''2'' []]]\<rparr>"

definition sample_agent :: agent_with_memory where
  "sample_agent =
     \<lparr>runnable = \<lparr>agent_llm = ChatGoogleGenerativeAI ''gemini-2.5-flash'' ''key'' 0 True,
                  agent_df = 0,
                  prompt = [System_persona, MessagesPlaceholder ''chat_history'',
                            Human_template ''{input}'', MessagesPlaceholder ''agent_scratchpad''],
                  verbose = False, allow_dangerous_code = True,
                  handle_parsing_errors = True\<rparr>,
      input_messages_key = ''input'', history_messages_key = ''chat_history''\<rparr>"

definition draw :: "axes \<Rightarrow> pyplot \<Rightarrow> pyplot" where
  "draw a p = (case gcf p of (f, p') \<Rightarrow> p'\<lparr>figures := (figures p')(f := figures p' f @ [a])\<rparr>)"

definition plotting_run :: "string \<Rightarrow> message list \<Rightarrow> dataframe \<Rightarrow> pyplot \<Rightarrow> agent_result" where
  \<comment> \<open>an agent whose generated code plots with pyplot calls and answers\<close>
  "plotting_run q hist d p =
     \<lparr>outcome = Inr [(''input'', q), (''output'', ''chart of '' @ q)],
      history_after = hist @ [HumanMessage q [], AIMessage (''chart of '' @ q) []],
      df_after = d, plt_after = draw q p\<rparr>"

definition failing_run :: "string \<Rightarrow> message list \<Rightarrow> dataframe \<Rightarrow> pyplot \<Rightarrow> agent_result" where
  \<comment> \<open>an agent call that raises\<close>
  "failing_run q hist d p =
     \<lparr>outcome = Inl (Exn ''ResourceExhausted'' ''quota exceeded''),
      history_after = hist, df_after = d, plt_after = p\<rparr>"

definition dropping_run :: "string \<Rightarrow> message list \<Rightarrow> dataframe \<Rightarrow> pyplot \<Rightarrow> agent_result" where
  \<comment> \<open>an agent whose generated code is \<^verbatim>\<open>df.drop(df.index, inplace=True)\<close>\<close>
  "dropping_run q hist d p =
     \<lparr>outcome = Inr [(''input'', q), (''output'', ''done'')],
      history_after = hist @ [HumanMessage q [], AIMessage ''done'' []],
      df_after = d\<lparr>rows := []\<rparr>, plt_after = p\<rparr>"

definition toy_read_csv :: "string \<Rightarrow> exn + dataframe" where
  \<comment> \<open>an empty upload is refused, as pandas does; anything else parses to the sample\<close>
  "toy_read_csv bytes =
     (if bytes = [] then Inl (Exn ''EmptyDataError'' ''No columns to parse from file'')
      else Inr sample_df)"

definition services ::
  "(string \<Rightarrow> message list \<Rightarrow> dataframe \<Rightarrow> pyplot \<Rightarrow> agent_result) \<Rightarrow> env" where
  "services run =
     \<lparr>read_csv = toy_read_csv, llm_error = (\<lambda>k. None), agent_error = (\<lambda>d. None),
      run_agent = run\<rparr>"

definition asking :: "string \<Rightarrow> string \<Rightarrow> string option \<Rightarrow> inputs" where
  \<comment> \<open>a run with the key in the secrets store, an upload, and what the chat box returns\<close>
  "asking file now chat =
     \<lparr>secrets_key = Some ''key'', text_input = [], uploaded_file = Some file,
      chat_input = chat, clock = now\<rparr>"

section \<open>Basic facts\<close>

lemmas run_defs =
  main_def render_sidebar_def initialize_session_state_def new_session_id_def load_csv_def
  csv_error_def start_agent_and_chat_def get_llm_def initialize_agent_def
  handle_chat_interaction_def try_answer_def ask_agent_def invoke_def get_session_history_def
  append_message_def analysis_error_def critical_error_def render_message_def
  clear_chat_history_def emit_def gcf_def clf_def get_axes_def df_head_def
  attribute_error_def key_error_def quoted_def Let_def

lemmas sample_defs =
  services_def toy_read_csv_def asking_def initial_world_def chat_world_def resumed_world_def
  sample_agent_def
  sample_df_def empty_pyplot_def draw_def plotting_run_def failing_run_def dropping_run_def
  api_key_entered_def

lemma emit_simps [simp]:
  "session (emit es w) = session w" "store (emit es w) = store w" "plt (emit es w) = plt w"
  "frames (emit es w) = frames w" "next_frame (emit es w) = next_frame w"
  "trace (emit es w) = trace w @ es"
  by (simp_all add: emit_def)

lemma render_messages_frame [simp]:
  "session (render_messages ms w) = session w"
  "store (render_messages ms w) = store w"
  "plt (render_messages ms w) = plt w"
  "frames (render_messages ms w) = frames w"
  "next_frame (render_messages ms w) = next_frame w"
  by (induction ms arbitrary: w) simp_all

lemma render_message_quiet: "filter agent_activity (render_message m) = []"
  by (simp add: render_message_def split: option.splits)

lemma render_messages_quiet:
  "filter agent_activity (trace (render_messages ms w)) = filter agent_activity (trace w)"
  by (induction ms arbitrary: w) (simp_all add: render_message_quiet)

lemma render_sidebar_result:
  "\<exists>w'. render_sidebar inp w = (api_key_entered inp, uploaded_file inp, w') \<and>
        session w' = session w \<and> store w' = store w \<and> plt w' = plt w \<and>
        frames w' = frames w \<and> next_frame w' = next_frame w \<and>
        filter agent_activity (trace w') = filter agent_activity (trace w)"
  by (simp add: render_sidebar_def api_key_entered_def Let_def split: option.splits)


lemma invoke_session [simp]: "session (snd (invoke ev ag q sid w)) = session w"
  by (simp add: invoke_def Let_def split: prod.splits)

text \<open>
  What the agent answers depends on the session identifier, the store, the DataFrames and
  the pyplot state only; and asking it leaves the session state alone.
\<close>

lemma ask_agent_Some:
  assumes "session_id (session w) = Some sid"
  shows "ask_agent ev ag q w =
     (case fst (invoke ev ag q sid (w\<lparr>plt := clf (plt w)\<rparr>)) of
        Inl e \<Rightarrow> Inl e
      | Inr response \<Rightarrow>
          (case map_of response ''output'' of
             None \<Rightarrow> Inl (key_error ''output'')
           | Some out \<Rightarrow> Inr out),
      snd (invoke ev ag q sid (w\<lparr>plt := clf (plt w)\<rparr>)))"
  using assms
  by (cases "invoke ev ag q sid (w\<lparr>plt := clf (plt w)\<rparr>)")
    (simp add: ask_agent_def Let_def split: sum.splits option.splits)

lemma ask_agent_None:
  "session_id (session w) = None \<Longrightarrow>
   ask_agent ev ag q w = (Inl (attribute_error ''session_id''), w\<lparr>plt := clf (plt w)\<rparr>)"
  by (simp add: ask_agent_def Let_def)


lemma ask_agent_session [simp]: "session (snd (ask_agent ev ag q w)) = session w"
  by (cases "session_id (session w)") (simp_all add: ask_agent_None ask_agent_Some)

lemma try_answer_session:
  "try_answer ev ag q w = (r, w') \<Longrightarrow>
   session_id (session w') = session_id (session w) \<and>
   df_loaded (session w') = df_loaded (session w)"
proof -
  assume t: "try_answer ev ag q w = (r, w')"
  obtain a w2 where a: "ask_agent ev ag q w = (a, w2)"
    by (cases "ask_agent ev ag q w")
  with ask_agent_session [of ev ag q w] have "session w2 = session w" by simp
  with t a show ?thesis
    by (auto simp: try_answer_def Let_def append_message_def
        split: option.splits sum.splits prod.splits if_splits)
qed

lemma try_answer_raise:
  assumes "fst (ask_agent ev ag q w) = Inl e"
  shows "try_answer ev ag q w = (Some e, snd (ask_agent ev ag q w))"
  using assms by (cases "ask_agent ev ag q w") (simp add: try_answer_def)

lemma try_answer_output:
  assumes "fst (ask_agent ev ag q w) = Inr out" and "messages (session w) = Some ms"
  shows "\<exists>w' kw. try_answer ev ag q w = (None, w') \<and>
           messages (session w') = Some (ms @ [AIMessage out kw])"
proof -
  obtain w2 where a: "ask_agent ev ag q w = (Inr out, w2)"
    using assms(1) by (cases "ask_agent ev ag q w") simp
  with ask_agent_session [of ev ag q w] have "messages (session w2) = Some ms"
    using assms(2) by simp
  with a show ?thesis
    by (auto simp: try_answer_def Let_def append_message_def split: prod.splits)
qed

lemma try_answer_messages:
  assumes "messages (session w) = Some ms"
  shows "(\<exists>w' c kw. try_answer ev ag q w = (None, w') \<and>
            messages (session w') = Some (ms @ [AIMessage c kw])) \<or>
         (\<exists>e w'. try_answer ev ag q w = (Some e, w') \<and> messages (session w') = Some ms)"
proof (cases "fst (ask_agent ev ag q w)")
  case (Inl e)
  from try_answer_raise [OF this] assms show ?thesis by simp
next
  case (Inr out)
  from try_answer_output [OF this assms] show ?thesis by blast
qed

text \<open>
  Whatever the agent call does, a submitted question leaves \<^verbatim>\<open>handle_chat_interaction\<close>
  normally, with the question and one assistant message added.
\<close>

lemma handle_chat_messages:
  assumes "messages (session w) = Some ms" and "q \<noteq> []"
  shows "\<exists>w' c kw. handle_chat_interaction ev ag (Some q) w = (None, w') \<and>
           messages (session w') = Some (ms @ [HumanMessage q [], AIMessage c kw]) \<and>
           session_id (session w') = session_id (session w) \<and>
           df_loaded (session w') = df_loaded (session w)"
proof -
  let ?w1 = "(emit [ChatInput] w)\<lparr>session :=
               (session w)\<lparr>messages := Some (ms @ [HumanMessage q []])\<rparr>\<rparr>"
  let ?w2 = "emit [ChatMessage ''user'', Markdown q, ChatMessage ''assistant'', Spinner] ?w1"
  have m2: "messages (session ?w2) = Some (ms @ [HumanMessage q []])" by simp
  have h: "handle_chat_interaction ev ag (Some q) w =
      (case try_answer ev ag q ?w2 of
         (None, w3) \<Rightarrow> (None, w3)
       | (Some e, w3) \<Rightarrow> append_message (AIMessage (analysis_error e) [])
                                 (emit [Error (analysis_error e)] w3))"
    using assms by (simp add: handle_chat_interaction_def Let_def append_message_def)
  obtain r w3 where t: "try_answer ev ag q ?w2 = (r, w3)"
    by (cases "try_answer ev ag q ?w2")
  from try_answer_session [OF t]
  have s3: "session_id (session w3) = session_id (session w)"
    "df_loaded (session w3) = df_loaded (session w)"
    by simp_all
  from try_answer_messages [OF m2, of ev ag q] t
  consider (ok) c kw where "r = None"
      "messages (session w3) = Some (ms @ [HumanMessage q [], AIMessage c kw])"
    | (err) e where "r = Some e" "messages (session w3) = Some (ms @ [HumanMessage q []])"
    by auto
  then show ?thesis
  proof cases
    case ok
    with h t s3 show ?thesis by simp
  next
    case err
    with h t s3 show ?thesis by (simp add: append_message_def)
  qed
qed



subsection \<open>The store only grows, one entry at a time\<close>

lemma invoke_store_other:
  "k \<noteq> sid \<Longrightarrow> store (snd (invoke ev ag q sid w)) k = store w k"
  by (simp add: invoke_def get_session_history_def Let_def split: option.splits)

lemma invoke_store_dom:
  "dom (store (snd (invoke ev ag q sid w))) = insert sid (dom (store w))"
  by (auto simp: invoke_def get_session_history_def Let_def split: option.splits)

lemma invoke_other_entry:
  "k \<noteq> sid \<Longrightarrow>
   invoke ev ag q sid (w\<lparr>store := (store w)(k := v)\<rparr>)
     = (fst (invoke ev ag q sid w),
        (snd (invoke ev ag q sid w))\<lparr>store := (store (snd (invoke ev ag q sid w)))(k := v)\<rparr>)"
  by (auto simp: invoke_def get_session_history_def Let_def fun_upd_twist split: option.splits)

lemma try_answer_store_other:
  "session_id (session w) = Some sid \<Longrightarrow> k \<noteq> sid \<Longrightarrow>
   store (snd (try_answer ev ag q w)) k = store w k"
  by (auto simp: try_answer_def ask_agent_def invoke_def get_session_history_def Let_def
      append_message_def split: option.splits sum.splits prod.splits)


lemma handle_chat_idle:
  "chat = None \<or> chat = Some [] \<or> messages (session w) = None \<Longrightarrow>
   snd (handle_chat_interaction ev ag chat w) = emit [ChatInput] w"
  by (auto simp: handle_chat_interaction_def Let_def append_message_def split: option.splits)

lemma handle_chat_asked:
  assumes "q \<noteq> []" and "messages (session w) = Some ms"
  shows "\<exists>w2 r w3. try_answer ev ag q w2 = (r, w3) \<and>
           store w2 = store w \<and> plt w2 = plt w \<and> frames w2 = frames w \<and>
           next_frame w2 = next_frame w \<and>
           session w2 = (session w)\<lparr>messages := Some (ms @ [HumanMessage q []])\<rparr> \<and>
           store (snd (handle_chat_interaction ev ag (Some q) w)) = store w3 \<and>
           plt (snd (handle_chat_interaction ev ag (Some q) w)) = plt w3 \<and>
           frames (snd (handle_chat_interaction ev ag (Some q) w)) = frames w3 \<and>
           next_frame (snd (handle_chat_interaction ev ag (Some q) w)) = next_frame w3"
proof -
  let ?w2 = "emit [ChatMessage ''user'', Markdown q, ChatMessage ''assistant'', Spinner]
      ((emit [ChatInput] w)\<lparr>session :=
               (session w)\<lparr>messages := Some (ms @ [HumanMessage q []])\<rparr>\<rparr>)"
  obtain r w3 where t: "try_answer ev ag q ?w2 = (r, w3)"
    by (cases "try_answer ev ag q ?w2")
  have "store (snd (handle_chat_interaction ev ag (Some q) w)) = store w3 \<and>
        plt (snd (handle_chat_interaction ev ag (Some q) w)) = plt w3 \<and>
        frames (snd (handle_chat_interaction ev ag (Some q) w)) = frames w3 \<and>
        next_frame (snd (handle_chat_interaction ev ag (Some q) w)) = next_frame w3"
    using assms t
    by (cases r) (auto simp: handle_chat_interaction_def Let_def append_message_def
        split: option.splits)
  with t show ?thesis
    by (intro exI [of _ ?w2] exI [of _ r] exI [of _ w3]) simp
qed

lemma handle_chat_store_other:
  assumes "session_id (session w) = Some sid" and "k \<noteq> sid"
  shows "store (snd (handle_chat_interaction ev ag chat w)) k = store w k"
proof (cases "chat = None \<or> chat = Some [] \<or> messages (session w) = None")
  case True
  then show ?thesis by (simp add: handle_chat_idle)
next
  case False
  then obtain q ms where c: "chat = Some q" "q \<noteq> []" "messages (session w) = Some ms"
    by auto
  from handle_chat_asked [OF c(2,3), of ev ag] obtain w2 r w3 where
    "try_answer ev ag q w2 = (r, w3)" "store w2 = store w"
    "session w2 = (session w)\<lparr>messages := Some (ms @ [HumanMessage q []])\<rparr>"
    "store (snd (handle_chat_interaction ev ag (Some q) w)) = store w3"
    by blast
  with try_answer_store_other [of w2 sid k ev ag q] assms c show ?thesis by simp
qed


lemma initialize_agent_ok:
  "agent_error ev (frames w df) = None \<Longrightarrow>
   \<exists>ag. initialize_agent ev l df w = (Inr ag, emit [CreateAgent l df] w) \<and>
        agent_df (runnable ag) = df"
  by (simp add: initialize_agent_def Let_def)

lemma start_agent_cases:
  "(\<exists>ag. agent_df (runnable ag) = df \<and>
      start_agent_and_chat ev key df chat w
        = handle_chat_interaction ev ag chat
            (emit [CreateAgent (ChatGoogleGenerativeAI ''gemini-2.5-flash'' key 0 True) df]
               (emit [NewLLM key] w))) \<or>
   (\<exists>e es. start_agent_and_chat ev key df chat w = (Some e, emit es w) \<and>
      filter (\<lambda>x. x = ChatInput) es = [])"
proof (cases "llm_error ev key")
  case (Some e)
  then have "start_agent_and_chat ev key df chat w = (Some e, emit [NewLLM key] w)"
    by (simp add: start_agent_and_chat_def get_llm_def)
  moreover have "filter (\<lambda>x. x = ChatInput) [NewLLM key] = []" by simp
  ultimately show ?thesis by blast
next
  case None
  let ?l = "ChatGoogleGenerativeAI ''gemini-2.5-flash'' key 0 True"
  let ?w1 = "emit [NewLLM key] w"
  show ?thesis
  proof (cases "agent_error ev (frames w df)")
    case (Some e)
    with None have "start_agent_and_chat ev key df chat w
        = (Some e, emit [NewLLM key, CreateAgent ?l df] w)"
      by (simp add: start_agent_and_chat_def get_llm_def initialize_agent_def Let_def emit_def)
    moreover have "filter (\<lambda>x. x = ChatInput) [NewLLM key, CreateAgent ?l df] = []" by simp
    ultimately show ?thesis by blast
  next
    case a: None
    then have "agent_error ev (frames ?w1 df) = None" by simp
    from initialize_agent_ok [OF this, of ?l] obtain ag where
      "initialize_agent ev ?l df ?w1 = (Inr ag, emit [CreateAgent ?l df] ?w1)"
      "agent_df (runnable ag) = df" by blast
    with None have "agent_df (runnable ag) = df \<and>
      start_agent_and_chat ev key df chat w
        = handle_chat_interaction ev ag chat (emit [CreateAgent ?l df] ?w1)"
      by (simp add: start_agent_and_chat_def get_llm_def)
    then show ?thesis by blast
  qed
qed





subsection \<open>A run of the script ends normally\<close>

text \<open>
  The transcript is in session state from \<^verbatim>\<open>initialize_session_state\<close> on, so the
  loop over it cannot fail, and whatever the construction of the agent or the chat step
  raises is caught by the handler of \<^verbatim>\<open>main\<close>.
\<close>

lemma main_returns: "fst (main ev inp w) = None"
proof -
  obtain w1 where s: "render_sidebar inp (emit [PageConfig, Title, Welcome] w)
        = (api_key_entered inp, uploaded_file inp, w1)"
    using render_sidebar_result [of inp "emit [PageConfig, Title, Welcome] w"] by auto
  let ?w2 = "w1\<lparr>session := initialize_session_state (clock inp) (session w1)\<rparr>"
  have "messages (session ?w2) \<noteq> None"
    by (simp add: initialize_session_state_def Let_def)
  then obtain ms where ms: "messages (session ?w2) = Some ms" by blast
  show ?thesis
    using s ms
    by (auto simp: main_def Let_def split: option.splits prod.splits)
qed

text \<open>
  A question submitted in a run of the script (a key, an upload that parses, a model client
  and an agent that are constructed): the chat step is reached with the transcript in
  session state, and the run adds the question and one assistant message to it.
\<close>

lemma start_agent_ok:
  assumes "llm_error ev key = None" and "agent_error ev (frames w df) = None"
  shows "\<exists>ag. agent_df (runnable ag) = df \<and>
      start_agent_and_chat ev key df chat w
        = handle_chat_interaction ev ag chat
            (emit [CreateAgent (ChatGoogleGenerativeAI ''gemini-2.5-flash'' key 0 True) df]
               (emit [NewLLM key] w))"
proof -
  let ?l = "ChatGoogleGenerativeAI ''gemini-2.5-flash'' key 0 True"
  let ?w1 = "emit [NewLLM key] w"
  from assms(2) have "agent_error ev (frames ?w1 df) = None" by simp
  from initialize_agent_ok [OF this, of ?l] obtain ag where
    "initialize_agent ev ?l df ?w1 = (Inr ag, emit [CreateAgent ?l df] ?w1)"
    "agent_df (runnable ag) = df" by blast
  with assms(1) have "agent_df (runnable ag) = df \<and>
      start_agent_and_chat ev key df chat w
        = handle_chat_interaction ev ag chat (emit [CreateAgent ?l df] ?w1)"
    by (simp add: start_agent_and_chat_def get_llm_def)
  then show ?thesis by blast
qed

lemma main_question:
  assumes "api_key_entered inp \<noteq> []" and "uploaded_file inp = Some up"
    and "read_csv ev up = Inr d" and "llm_error ev (api_key_entered inp) = None"
    and "agent_error ev d = None" and "chat_input inp = Some q" and "q \<noteq> []"
  shows "\<exists>w' c kw. main ev inp w = (None, w') \<and>
           messages (session w')
             = Some ((case messages (session w) of None \<Rightarrow> [] | Some ms \<Rightarrow> ms)
                      @ [HumanMessage q [], AIMessage c kw])"
proof -
  obtain w1 where s: "render_sidebar inp (emit [PageConfig, Title, Welcome] w)
        = (api_key_entered inp, uploaded_file inp, w1)" and f: "session w1 = session w"
      "next_frame w1 = next_frame w"
    using render_sidebar_result [of inp "emit [PageConfig, Title, Welcome] w"] by auto
  let ?ms = "case messages (session w) of None \<Rightarrow> [] | Some ms \<Rightarrow> ms"
  let ?w2 = "w1\<lparr>session := initialize_session_state (clock inp) (session w1)\<rparr>"
  have ms: "messages (session ?w2) = Some ?ms"
    using f by (simp add: initialize_session_state_def Let_def split: option.splits)
  obtain w4 where l: "load_csv ev up (render_messages ?ms ?w2) = (Some (next_frame w), w4)"
    and f4: "frames w4 (next_frame w) = d" "messages (session w4) = Some ?ms"
    using f assms(3) ms by (simp add: load_csv_def)
  define w5 where "w5 = (if \<not> (case df_loaded (session w4) of
                                                None \<Rightarrow> False | Some b \<Rightarrow> b)
                                       then (emit [CsvLoadedSuccess,
                                                   Dataframe (df_head (frames w4 (next_frame w)))] w4)
                                              \<lparr>session := (session w4)\<lparr>df_loaded := Some True\<rparr>\<rparr>
                                       else w4)"
  have f5: "frames w5 (next_frame w) = d" "messages (session w5) = Some ?ms"
    using f4 by (simp_all add: w5_def)
  let ?v = "emit [CreateAgent (ChatGoogleGenerativeAI ''gemini-2.5-flash''
                    (api_key_entered inp) 0 True) (next_frame w)]
              (emit [NewLLM (api_key_entered inp)] w5)"
  from start_agent_ok [of ev "api_key_entered inp" w5 "next_frame w" "chat_input inp"]
    assms(4,5) f5(1)
  obtain ag where a: "start_agent_and_chat ev (api_key_entered inp) (next_frame w)
      (chat_input inp) w5 = handle_chat_interaction ev ag (chat_input inp) ?v"
    by auto
  have "messages (session ?v) = Some ?ms" using f5(2) by simp
  from handle_chat_messages [OF this assms(7), of ev ag] obtain w' c kw where
    h: "handle_chat_interaction ev ag (Some q) ?v = (None, w')"
    and m: "messages (session w') = Some (?ms @ [HumanMessage q [], AIMessage c kw])"
    by blast
  have "main ev inp w = (None, w')"
    using s ms assms(1,2,6) l a h by (simp add: main_def Let_def w5_def)
  with m show ?thesis by blast
qed

subsection \<open>Who writes to a DataFrame\<close>

text \<open>
  Only the agent call writes to the heap of DataFrames, and only at the address the agent
  was built on; what it writes is what the agent's run left there.
\<close>

lemma invoke_frames_other:
  "a \<noteq> agent_df (runnable ag) \<Longrightarrow> frames (snd (invoke ev ag q sid w)) a = frames w a"
  by (simp add: invoke_def Let_def split: prod.splits)

lemma invoke_frames_read_only:
  assumes "\<And>q hist d p. df_after (run_agent ev q hist d p) = d"
  shows "frames (snd (invoke ev ag q sid w)) = frames w"
  by (simp add: invoke_def Let_def assms split: prod.splits)

lemma ask_agent_frames_other:
  "a \<noteq> agent_df (runnable ag) \<Longrightarrow> frames (snd (ask_agent ev ag q w)) a = frames w a"
  by (cases "session_id (session w)")
    (simp_all add: ask_agent_None ask_agent_Some invoke_frames_other)

lemma ask_agent_frames_read_only:
  assumes "\<And>q hist d p. df_after (run_agent ev q hist d p) = d"
  shows "frames (snd (ask_agent ev ag q w)) = frames w"
  by (cases "session_id (session w)")
    (simp_all add: ask_agent_None ask_agent_Some invoke_frames_read_only [OF assms])

lemma try_answer_frames: "frames (snd (try_answer ev ag q w)) = frames (snd (ask_agent ev ag q w))"
  by (cases "ask_agent ev ag q w")
    (auto simp: try_answer_def Let_def append_message_def
      split: sum.splits prod.splits option.splits)

lemma handle_chat_frames_other:
  assumes "a \<noteq> agent_df (runnable ag)"
  shows "frames (snd (handle_chat_interaction ev ag chat w)) a = frames w a"
proof (cases "chat = None \<or> chat = Some [] \<or> messages (session w) = None")
  case True
  then show ?thesis by (simp add: handle_chat_idle)
next
  case False
  then obtain q ms where c: "chat = Some q" "q \<noteq> []" "messages (session w) = Some ms"
    by auto
  from handle_chat_asked [OF c(2,3), of ev ag] obtain w2 r w3 where
    "try_answer ev ag q w2 = (r, w3)" "frames w2 = frames w"
    "frames (snd (handle_chat_interaction ev ag (Some q) w)) = frames w3"
    by blast
  with try_answer_frames [of ev ag q w2] ask_agent_frames_other [OF assms, of ev q w2] c
  show ?thesis by simp
qed

lemma handle_chat_frames_read_only:
  assumes "\<And>q hist d p. df_after (run_agent ev q hist d p) = d"
  shows "frames (snd (handle_chat_interaction ev ag chat w)) = frames w"
proof (cases "chat = None \<or> chat = Some [] \<or> messages (session w) = None")
  case True
  then show ?thesis by (simp add: handle_chat_idle)
next
  case False
  then obtain q ms where c: "chat = Some q" "q \<noteq> []" "messages (session w) = Some ms"
    by auto
  from handle_chat_asked [OF c(2,3), of ev ag] obtain w2 r w3 where
    "try_answer ev ag q w2 = (r, w3)" "frames w2 = frames w"
    "frames (snd (handle_chat_interaction ev ag (Some q) w)) = frames w3"
    by blast
  with try_answer_frames [of ev ag q w2] ask_agent_frames_read_only [OF assms, of ag q w2] c
  show ?thesis by simp
qed

lemma start_agent_frames_read_only:
  assumes "\<And>q hist d p. df_after (run_agent ev q hist d p) = d"
  shows "frames (snd (start_agent_and_chat ev key df chat w)) = frames w"
proof -
  let ?v = "emit [CreateAgent (ChatGoogleGenerativeAI ''gemini-2.5-flash'' key 0 True) df]
              (emit [NewLLM key] w)"
  from start_agent_cases [of df ev key chat w]
  consider (run) ag where
      "start_agent_and_chat ev key df chat w = handle_chat_interaction ev ag chat ?v"
    | (stop) e es where "start_agent_and_chat ev key df chat w = (Some e, emit es w)"
    by blast
  then show ?thesis
  proof cases
    case run
    with handle_chat_frames_read_only [OF assms, of ag chat ?v] show ?thesis by simp
  next
    case stop
    then show ?thesis by simp
  qed
qed

lemma main_frames_read_only:
  assumes "\<And>q hist d p. df_after (run_agent ev q hist d p) = d"
  shows "frames (snd (main ev inp w)) = frames w \<or>
         (\<exists>up d. uploaded_file inp = Some up \<and> read_csv ev up = Inr d \<and>
            frames (snd (main ev inp w)) = (frames w)(next_frame w := d))"
proof -
  obtain w1 where s: "render_sidebar inp (emit [PageConfig, Title, Welcome] w)
        = (api_key_entered inp, uploaded_file inp, w1)" and f: "frames w1 = frames w"
      "next_frame w1 = next_frame w"
    using render_sidebar_result [of inp "emit [PageConfig, Title, Welcome] w"] by auto
  let ?w2 = "w1\<lparr>session := initialize_session_state (clock inp) (session w1)\<rparr>"
  have "messages (session ?w2) \<noteq> None"
    by (simp add: initialize_session_state_def Let_def)
  then obtain ms where ms: "messages (session ?w2) = Some ms" by blast
  show ?thesis
  proof (cases "api_key_entered inp = [] \<or> uploaded_file inp = None")
    case True
    with s f show ?thesis by (auto simp: main_def Let_def)
  next
    case False
    then obtain up where u: "api_key_entered inp \<noteq> []" "uploaded_file inp = Some up"
      by auto
    show ?thesis
    proof (cases "read_csv ev up")
      case (Inl e)
      with s f ms u show ?thesis by (simp add: main_def Let_def load_csv_def)
    next
      case (Inr d)
      then obtain w4 where l: "load_csv ev up (render_messages ms ?w2) = (Some (next_frame w), w4)"
        and f4: "frames w4 = (frames w)(next_frame w := d)"
        using f by (simp add: load_csv_def)
      define w5 where "w5 = (if \<not> (case df_loaded (session w4) of
                                                None \<Rightarrow> False | Some b \<Rightarrow> b)
                                       then (emit [CsvLoadedSuccess,
                                                   Dataframe (df_head (frames w4 (next_frame w)))] w4)
                                              \<lparr>session := (session w4)\<lparr>df_loaded := Some True\<rparr>\<rparr>
                                       else w4)"
      have f5: "frames w5 = (frames w)(next_frame w := d)" using f4 by (simp add: w5_def)
      obtain r w6 where a: "start_agent_and_chat ev (api_key_entered inp) (next_frame w)
          (chat_input inp) w5 = (r, w6)"
        by (cases "start_agent_and_chat ev (api_key_entered inp) (next_frame w) (chat_input inp) w5")
      have "frames w6 = (frames w)(next_frame w := d)"
        using start_agent_frames_read_only [OF assms, of "api_key_entered inp" "next_frame w"
            "chat_input inp" w5] a f5
        by simp
      moreover have "frames (snd (main ev inp w)) = frames w6"
        using s ms u l a by (cases r) (simp_all add: main_def Let_def w5_def)
      ultimately show ?thesis using u Inr by simp
    qed
  qed
qed

section \<open>Session bookkeeping\<close>

text \<open>
  C8. \<^verbatim>\<open>initialize_session_state\<close> leaves a session state that already holds the
  messages list and the session identifier exactly as it is, whatever the clock shows;
  so calling it again after it has run changes nothing, and the identifier it generated
  the first time stays.
\<close>

theorem initialize_session_state_idempotent:
  "(messages s \<noteq> None \<and> session_id s \<noteq> None \<longrightarrow> initialize_session_state now s = s) \<and>
   initialize_session_state now' (initialize_session_state now s)
     = initialize_session_state now s"
  by (simp add: initialize_session_state_def Let_def)

theorem initialize_session_state_idempotent_witness:
  "messages (session chat_world) \<noteq> None \<and> session_id (session chat_world) \<noteq> None \<and>
   initialize_session_state ''1730851333.25'' (session chat_world) = session chat_world"
  using initialize_session_state_idempotent [of "session chat_world" "''1730851333.25''"]
  by (simp add: chat_world_def)




section \<open>A CSV that does not parse\<close>

text \<open>
  C1. When \<^verbatim>\<open>pd.read_csv\<close> raises on the uploaded file, \<^verbatim>\<open>load_csv\<close> returns
  \<open>None\<close> after showing the error, and raises nothing. A run of \<^verbatim>\<open>main\<close> with that
  upload ends normally; it constructs no model client and no agent, does not open the chat
  input and invokes nothing, and it leaves the store, the figures and the DataFrames as
  they were. When an API key was given, so that the run reaches \<^verbatim>\<open>load_csv\<close>, the
  last thing it shows is that error.
\<close>

theorem malformed_csv_upload:
  assumes "read_csv ev f = Inl e"
  shows "load_csv ev f w = (None, emit [Error (csv_error e)] w) \<and>
         (uploaded_file inp = Some f \<longrightarrow>
            (\<exists>w'. main ev inp w = (None, w') \<and>
                  filter agent_activity (trace w') = filter agent_activity (trace w) \<and>
                  store w' = store w \<and> plt w' = plt w \<and> frames w' = frames w \<and>
                  session w' = initialize_session_state (clock inp) (session w) \<and>
                  (api_key_entered inp \<noteq> [] \<longrightarrow> last (trace w') = Error (csv_error e))))"
proof -
  have l: "\<And>v. load_csv ev f v = (None, emit [Error (csv_error e)] v)"
    using assms by (simp add: load_csv_def)
  obtain w1 where s: "render_sidebar inp (emit [PageConfig, Title, Welcome] w)
        = (api_key_entered inp, uploaded_file inp, w1)"
    and q: "filter agent_activity (trace w1) = filter agent_activity (trace w)"
    and f: "session w1 = session w" "store w1 = store w" "plt w1 = plt w" "frames w1 = frames w"
    using render_sidebar_result [of inp "emit [PageConfig, Title, Welcome] w"] by auto
  let ?w2 = "w1\<lparr>session := initialize_session_state (clock inp) (session w1)\<rparr>"
  have "messages (session ?w2) \<noteq> None"
    by (simp add: initialize_session_state_def Let_def)
  then obtain ms where ms: "messages (session ?w2) = Some ms" by blast
  have "uploaded_file inp = Some f \<Longrightarrow>
        \<exists>w'. main ev inp w = (None, w') \<and>
             filter agent_activity (trace w') = filter agent_activity (trace w) \<and>
             store w' = store w \<and> plt w' = plt w \<and> frames w' = frames w \<and>
             session w' = initialize_session_state (clock inp) (session w) \<and>
             (api_key_entered inp \<noteq> [] \<longrightarrow> last (trace w') = Error (csv_error e))"
    using s q f ms l by (simp add: main_def Let_def render_messages_quiet)
  with l show ?thesis by blast
qed

theorem malformed_csv_upload_witness:
  "read_csv (services failing_run) []
     = Inl (Exn ''EmptyDataError'' ''No columns to parse from file'') \<and>
   uploaded_file (asking [] ''1730851200.5'' (Some ''how many rows?'')) = Some [] \<and>
   api_key_entered (asking [] ''1730851200.5'' (Some ''how many rows?'')) \<noteq> [] \<and>
   load_csv (services failing_run) [] initial_world
     = (None, emit [Error ''Erro ao carregar o arquivo CSV: No columns to parse from file'']
                initial_world) \<and>
   fst (main (services failing_run) (asking [] ''1730851200.5'' (Some ''how many rows?''))
          initial_world) = None \<and>
   filter agent_activity
     (trace (snd (main (services failing_run)
                    (asking [] ''1730851200.5'' (Some ''how many rows?'')) initial_world))) = [] \<and>
   last (trace (snd (main (services failing_run)
                    (asking [] ''1730851200.5'' (Some ''how many rows?'')) initial_world)))
     = Error ''Erro ao carregar o arquivo CSV: No columns to parse from file''"
  using malformed_csv_upload [of "services failing_run" "[]"
      "Exn ''EmptyDataError'' ''No columns to parse from file''" initial_world
      "asking [] ''1730851200.5'' (Some ''how many rows?'')"]
  by (auto simp: services_def toy_read_csv_def asking_def api_key_entered_def csv_error_def
      initial_world_def)

section \<open>The global store\<close>

text \<open>
  C7. Histories of different sessions are separate. For a session identifier \<open>sid\<close> and
  any other identifier: \<^verbatim>\<open>get_session_history(sid)\<close> leaves the other entry as it is,
  and gives the same result whatever the other entry holds (or whether it exists); the
  agent call configured with \<open>sid\<close>, which looks the history up and writes to it, answers
  the same whatever the other entry holds and leaves it as it is; and so does the whole
  chat step of a session whose identifier is \<open>sid\<close>.
\<close>

theorem session_histories_disjoint:
  assumes "other \<noteq> sid"
  shows "snd (get_session_history sid st) other = st other \<and>
         get_session_history sid (st(other := v))
           = (fst (get_session_history sid st), (snd (get_session_history sid st))(other := v)) \<and>
         store (snd (invoke ev ag q sid w)) other = store w other \<and>
         fst (invoke ev ag q sid (w\<lparr>store := (store w)(other := v)\<rparr>))
           = fst (invoke ev ag q sid w) \<and>
         (session_id (session w) = Some sid \<longrightarrow>
            store (snd (handle_chat_interaction ev ag chat w)) other = store w other)"
proof -
  have "snd (get_session_history sid st) other = st other"
    using assms by (simp add: get_session_history_def split: option.splits)
  moreover have "get_session_history sid (st(other := v))
      = (fst (get_session_history sid st), (snd (get_session_history sid st))(other := v))"
    using assms by (auto simp: get_session_history_def fun_upd_twist split: option.splits)
  moreover have "store (snd (invoke ev ag q sid w)) other = store w other"
    using assms by (rule invoke_store_other)
  moreover have "fst (invoke ev ag q sid (w\<lparr>store := (store w)(other := v)\<rparr>))
      = fst (invoke ev ag q sid w)"
    using assms by (simp add: invoke_other_entry)
  moreover have "session_id (session w) = Some sid \<longrightarrow>
      store (snd (handle_chat_interaction ev ag chat w)) other = store w other"
    using assms by (simp add: handle_chat_store_other)
  ultimately show ?thesis by blast
qed

theorem session_histories_disjoint_witness:
  "''session_1730850000.25'' \<noteq> ''session_1730851200.5'' \<and>
   session_id (session resumed_world) = Some ''session_1730851200.5'' \<and>
   snd (get_session_history ''session_1730851200.5'' (store resumed_world))
     ''session_1730850000.25''
     = Some [HumanMessage ''how many rows?'' [], AIMessage ''2'' []] \<and>
   store (snd (handle_chat_interaction (services plotting_run) sample_agent
                 (Some ''plot a'') resumed_world)) ''session_1730850000.25''
     = Some [HumanMessage ''how many rows?'' [], AIMessage ''2'' []]"
  using session_histories_disjoint [of "''session_1730850000.25''" "''session_1730851200.5''"
      "store resumed_world" None "services plotting_run" sample_agent "''plot a''"
      resumed_world "Some ''plot a''"]
  by (simp add: resumed_world_def chat_world_def)



section \<open>The chat step\<close>








text \<open>The same on two whole runs of the script from a fresh process.\<close>

lemma two_questions_run:
  "messages (session (process initial_world
      [Rerun (services failing_run) (asking ''a,b'' ''1730851200.5'' (Some ''plot a'')),
       Rerun (services plotting_run) (asking ''a,b'' ''1730851260.0'' (Some ''plot b''))]))
   = Some [HumanMessage ''plot a'' [],
           AIMessage (analysis_error (Exn ''ResourceExhausted'' ''quota exceeded'')) [],
           HumanMessage ''plot b'' [],
           AIMessage ''chart of plot b'' [(''plot'', 0)]]"
  by (simp add: run_defs sample_defs)

text \<open>
  The history object of the session, in the store, holds after a question what the
  library left in it; this script does not write to it.
\<close>

lemma handle_chat_store_entry:
  assumes "messages (session w) = Some ms" and "q \<noteq> []"
    and "session_id (session w) = Some sid"
  shows "store (snd (handle_chat_interaction ev ag (Some q) w)) sid
     = Some (history_after (run_agent ev q (fst (get_session_history sid (store w)))
               (frames w (agent_df (runnable ag))) (clf (plt w))))"
proof -
  from handle_chat_asked [OF assms(2,1), of ev ag] obtain w2 r w3 where
    t: "try_answer ev ag q w2 = (r, w3)" and e: "store w2 = store w" "plt w2 = plt w"
      "frames w2 = frames w"
      "session w2 = (session w)\<lparr>messages := Some (ms @ [HumanMessage q []])\<rparr>"
    and h: "store (snd (handle_chat_interaction ev ag (Some q) w)) = store w3"
    by blast
  have "store (snd (try_answer ev ag q w2)) sid
     = Some (history_after (run_agent ev q (fst (get_session_history sid (store w2)))
               (frames w2 (agent_df (runnable ag))) (clf (plt w2))))"
    using e(4) assms(3)
    by (auto simp: try_answer_def ask_agent_def invoke_def Let_def append_message_def
        split: option.splits sum.splits prod.splits)
  with t e h show ?thesis by simp
qed

section \<open>Charts\<close>

text \<open>
  The assistant message of an answered question carries the current figure exactly when
  that figure has axes after the agent call.
\<close>

lemma try_answer_chart:
  assumes "ask_agent ev ag q w = (Inr out, w2)" and "messages (session w) = Some ms"
    and "gcf (plt w2) = (fig, p)"
  shows "messages (session (snd (try_answer ev ag q w)))
           = Some (ms @ [AIMessage out (if get_axes p fig \<noteq> [] then [(''plot'', fig)] else [])])"
proof -
  from ask_agent_session [of ev ag q w] assms(1,2) have "messages (session w2) = Some ms"
    by simp
  with assms show ?thesis
    by (simp add: try_answer_def Let_def append_message_def)
qed


section \<open>The dataset\<close>

text \<open>
  C6 as stated fails for chat handling. The DataFrame is handed to the agent by reference,
  and the agent runs generated code on it (\<^verbatim>\<open>allow_dangerous_code=True\<close>): after a run
  of the script in which that code drops the rows, the DataFrame that \<^verbatim>\<open>load_csv\<close>
  returned has none.
\<close>

theorem dataframe_mutated_by_agent_code:
  "load_csv (services dropping_run) ''a,b'' initial_world
     = (Some 0, initial_world\<lparr>frames := (frames initial_world)(0 := sample_df),
                               next_frame := 1\<rparr>) \<and>
   rows sample_df = [[''1'', ''2''], [''3'', ''4'']] \<and>
   rows (frames (snd (main (services dropping_run)
            (asking ''a,b'' ''1730851200.5'' (Some ''drop every row'')) initial_world)) 0) = []"
  by (simp add: run_defs sample_defs)

text \<open>
  C6, amended. No statement of the script itself writes to a DataFrame: showing the
  transcript, the reset action, the construction of the model client and of the agent leave
  every DataFrame as it is, and chat handling leaves every DataFrame other than the agent's
  as it is. The agent's own DataFrame is after chat handling what the code run by the
  agent left; when that code does not write to it, chat handling leaves all DataFrames as
  they are, and a whole run of the script changes nothing but to add the DataFrame it
  loaded, which at the end of the run is still as \<^verbatim>\<open>pd.read_csv\<close> returned it.
\<close>

theorem dataframe_left_intact:
  "frames (render_messages ms w) = frames w \<and>
   frames (clear_chat_history now w) = frames w \<and>
   frames (snd (get_llm ev key w)) = frames w \<and>
   frames (snd (initialize_agent ev l df w)) = frames w \<and>
   (\<forall>a. a \<noteq> agent_df (runnable ag) \<longrightarrow>
      frames (snd (handle_chat_interaction ev ag chat w)) a = frames w a) \<and>
   ((\<forall>q hist d p. df_after (run_agent ev q hist d p) = d) \<longrightarrow>
      frames (snd (handle_chat_interaction ev ag chat w)) = frames w \<and>
      (frames (snd (main ev inp w)) = frames w \<or>
       (\<exists>up d. uploaded_file inp = Some up \<and> read_csv ev up = Inr d \<and>
            frames (snd (main ev inp w)) = (frames w)(next_frame w := d))))"
proof -
  have "frames (clear_chat_history now w) = frames w"
    by (simp add: clear_chat_history_def Let_def)
  moreover have "frames (snd (get_llm ev key w)) = frames w"
    by (simp add: get_llm_def split: option.splits)
  moreover have "frames (snd (initialize_agent ev l df w)) = frames w"
    by (simp add: initialize_agent_def Let_def split: option.splits)
  ultimately show ?thesis
    using handle_chat_frames_other [of _ ag ev chat w]
      handle_chat_frames_read_only [of ev ag chat w] main_frames_read_only [of ev inp w]
    by simp
qed

theorem dataframe_left_intact_witness:
  "(\<forall>q hist d p. df_after (run_agent (services plotting_run) q hist d p) = d) \<and>
   1 \<noteq> agent_df (runnable sample_agent) \<and>
   frames (snd (handle_chat_interaction (services dropping_run) sample_agent
                  (Some ''drop every row'') chat_world)) 1 = frames chat_world 1 \<and>
   frames (snd (handle_chat_interaction (services plotting_run) sample_agent
                  (Some ''plot a'') chat_world)) = frames chat_world \<and>
   frames (snd (main (services plotting_run)
                  (asking ''a,b'' ''1730851200.5'' (Some ''plot a'')) initial_world))
     = (frames initial_world)(0 := sample_df)"
proof -
  have ro: "\<forall>q hist d p. df_after (run_agent (services plotting_run) q hist d p) = d"
    by (simp add: services_def plotting_run_def)
  have ne: "1 \<noteq> agent_df (runnable sample_agent)" by (simp add: sample_agent_def)
  have m: "frames (snd (main (services plotting_run)
                  (asking ''a,b'' ''1730851200.5'' (Some ''plot a'')) initial_world))
     = (frames initial_world)(0 := sample_df)"
    by (simp add: run_defs sample_defs)
  from dataframe_left_intact [of "[]" chat_world "''0''" "services dropping_run" "''key''"
      "ChatGoogleGenerativeAI ''gemini-2.5-flash'' ''key'' 0 True" 0 sample_agent
      "Some ''drop every row''" "asking ''a,b'' ''1730851200.5'' (Some ''plot a'')"] ne
  have "frames (snd (handle_chat_interaction (services dropping_run) sample_agent
                  (Some ''drop every row'') chat_world)) 1 = frames chat_world 1"
    by blast
  moreover
  from dataframe_left_intact [of "[]" chat_world "''0''" "services plotting_run" "''key''"
      "ChatGoogleGenerativeAI ''gemini-2.5-flash'' ''key'' 0 True" 0 sample_agent
      "Some ''plot a''" "asking ''a,b'' ''1730851200.5'' (Some ''plot a'')"] ro
  have "frames (snd (handle_chat_interaction (services plotting_run) sample_agent
                  (Some ''plot a'') chat_world)) = frames chat_world"
    by blast
  ultimately show ?thesis using ro ne m by blast
qed

end
